theory Spec2Isabelle
  imports Complex_Main
begin

section \<open>JavaScript numbers\<close>

text \<open>
  Every number of \<^verbatim>\<open>src/dna/main.js\<close> is a JavaScript number. The finite ones are
  modelled as mathematical reals (rounding, overflow to infinity and the sign of zero are
  not modelled); the three non-finite values are written out, because an unguarded
  division such as \<^verbatim>\<open>targetSize / maxDim\<close> produces them and every later operation
  propagates them.
\<close>

datatype jsnum = Fin real | PInf | NInf | NaN

definition inf_of_sign :: "real \<Rightarrow> jsnum" where
  "inf_of_sign s = (if 0 < s then PInf else if s < 0 then NInf else NaN)"

fun js_sign :: "jsnum \<Rightarrow> real" where
  "js_sign (Fin a) = sgn a"
| "js_sign PInf = 1"
| "js_sign NInf = - 1"
| "js_sign NaN = 0"

instantiation jsnum :: "{uminus, plus, minus, times, inverse, ord}"
begin

fun uminus_jsnum :: "jsnum \<Rightarrow> jsnum" where
  "- (Fin a) = Fin (- a)"
| "- PInf = NInf"
| "- NInf = PInf"
| "- NaN = NaN"

fun plus_jsnum :: "jsnum \<Rightarrow> jsnum \<Rightarrow> jsnum" where
  "Fin a + Fin b = Fin (a + b)"
| "NaN + _ = NaN"
| "_ + NaN = NaN"
| "PInf + NInf = NaN"
| "NInf + PInf = NaN"
| "PInf + _ = PInf"
| "_ + PInf = PInf"
| "NInf + _ = NInf"
| "_ + NInf = NInf"

definition minus_jsnum :: "jsnum \<Rightarrow> jsnum \<Rightarrow> jsnum" where
  "(a::jsnum) - b = a + (- b)"

fun times_jsnum :: "jsnum \<Rightarrow> jsnum \<Rightarrow> jsnum" where
  "Fin a * Fin b = Fin (a * b)"
| "NaN * _ = NaN"
| "_ * NaN = NaN"
| "a * b = inf_of_sign (js_sign a * js_sign b)"

fun divide_jsnum :: "jsnum \<Rightarrow> jsnum \<Rightarrow> jsnum" where
  "Fin a div Fin b = (if b = 0 then inf_of_sign (sgn a) else Fin (a / b))"
| "NaN div _ = NaN"
| "_ div NaN = NaN"
| "Fin a div _ = Fin 0"
| "a div Fin b = inf_of_sign (js_sign a * (if b < 0 then - 1 else 1))"
| "(_::jsnum) div _ = NaN"

definition inverse_jsnum :: "jsnum \<Rightarrow> jsnum" where
  "inverse (a::jsnum) = Fin 1 div a"

fun less_jsnum :: "jsnum \<Rightarrow> jsnum \<Rightarrow> bool" where
  "Fin a < Fin b \<longleftrightarrow> a < b"
| "NaN < _ \<longleftrightarrow> False"
| "_ < NaN \<longleftrightarrow> False"
| "_ < NInf \<longleftrightarrow> False"
| "PInf < _ \<longleftrightarrow> False"
| "NInf < _ \<longleftrightarrow> True"
| "_ < PInf \<longleftrightarrow> True"

fun less_eq_jsnum :: "jsnum \<Rightarrow> jsnum \<Rightarrow> bool" where
  "Fin a \<le> Fin b \<longleftrightarrow> a \<le> b"
| "NaN \<le> _ \<longleftrightarrow> False"
| "_ \<le> NaN \<longleftrightarrow> False"
| "NInf \<le> _ \<longleftrightarrow> True"
| "_ \<le> PInf \<longleftrightarrow> True"
| "(_::jsnum) \<le> _ \<longleftrightarrow> False"

instance ..

end

definition Math_PI :: jsnum where
  "Math_PI = Fin pi"

fun Math_abs :: "jsnum \<Rightarrow> jsnum" where
  "Math_abs (Fin a) = Fin \<bar>a\<bar>"
| "Math_abs NaN = NaN"
| "Math_abs _ = PInf"

text \<open>The poles of the tangent are not double values; the model gives HOL's \<open>tan\<close> there.\<close>

fun Math_tan :: "jsnum \<Rightarrow> jsnum" where
  "Math_tan (Fin a) = Fin (tan a)"
| "Math_tan _ = NaN"

fun Math_sin :: "jsnum \<Rightarrow> jsnum" where
  "Math_sin (Fin a) = Fin (sin a)"
| "Math_sin _ = NaN"

fun Math_cos :: "jsnum \<Rightarrow> jsnum" where
  "Math_cos (Fin a) = Fin (cos a)"
| "Math_cos _ = NaN"

fun Math_sqrt :: "jsnum \<Rightarrow> jsnum" where
  "Math_sqrt (Fin a) = (if a < 0 then NaN else Fin (sqrt a))"
| "Math_sqrt PInf = PInf"
| "Math_sqrt _ = NaN"

fun Math_max2 :: "jsnum \<Rightarrow> jsnum \<Rightarrow> jsnum" where
  "Math_max2 (Fin a) (Fin b) = Fin (max a b)"
| "Math_max2 NaN _ = NaN"
| "Math_max2 _ NaN = NaN"
| "Math_max2 PInf _ = PInf"
| "Math_max2 _ PInf = PInf"
| "Math_max2 NInf b = b"
| "Math_max2 a NInf = a"

fun Math_min2 :: "jsnum \<Rightarrow> jsnum \<Rightarrow> jsnum" where
  "Math_min2 (Fin a) (Fin b) = Fin (min a b)"
| "Math_min2 NaN _ = NaN"
| "Math_min2 _ NaN = NaN"
| "Math_min2 NInf _ = NInf"
| "Math_min2 _ NInf = NInf"
| "Math_min2 PInf b = b"
| "Math_min2 a PInf = a"

text \<open>\<^verbatim>\<open>Math.max(a, b, c)\<close>: the largest argument, \<^verbatim>\<open>NaN\<close> if any argument is,
  \<^verbatim>\<open>-Infinity\<close> on no argument.\<close>

definition Math_max :: "jsnum list \<Rightarrow> jsnum" where
  "Math_max xs = foldr Math_max2 xs NInf"

fun isFinite :: "jsnum \<Rightarrow> bool" where
  "isFinite (Fin a) = True"
| "isFinite _ = False"

section \<open>Vectors, boxes and scene objects\<close>

datatype vector3 = Vector3 (vec_x: jsnum) (vec_y: jsnum) (vec_z: jsnum)

definition setScalar :: "jsnum \<Rightarrow> vector3" where
  "setScalar s = Vector3 s s s"

text \<open>Assignment to one component of a vector, as in \<^verbatim>\<open>object.rotation.x = a\<close>.\<close>

definition set_x :: "jsnum \<Rightarrow> vector3 \<Rightarrow> vector3" where
  "set_x a v = Vector3 a (vec_y v) (vec_z v)"

definition set_y :: "jsnum \<Rightarrow> vector3 \<Rightarrow> vector3" where
  "set_y a v = Vector3 (vec_x v) a (vec_z v)"

definition set_z :: "jsnum \<Rightarrow> vector3 \<Rightarrow> vector3" where
  "set_z a v = Vector3 (vec_x v) (vec_y v) a"

text \<open>\<^verbatim>\<open>Vector3.length()\<close>, read by the source as the camera's distance from the origin.\<close>

definition length3 :: "vector3 \<Rightarrow> jsnum" where
  "length3 v = Math_sqrt (vec_x v * vec_x v + vec_y v * vec_y v + vec_z v * vec_z v)"

datatype box3 = Box3 (box_min: vector3) (box_max: vector3)

text \<open>
  Modelled from the spec: the derived attributes of a bounding box. \<^verbatim>\<open>Box3.getSize\<close> and
  \<^verbatim>\<open>Box3.getCenter\<close> belong to the rendering library and are not under \<^verbatim>\<open>src/\<close>; the
  spec's data model gives \<open>size = max - min\<close> component-wise and \<open>center = (min + max) / 2\<close>.
\<close>

definition getSize :: "box3 \<Rightarrow> vector3" where
  "getSize b = Vector3 (vec_x (box_max b) - vec_x (box_min b))
                       (vec_y (box_max b) - vec_y (box_min b))
                       (vec_z (box_max b) - vec_z (box_min b))"

definition getCenter :: "box3 \<Rightarrow> vector3" where
  "getCenter b = Vector3 ((vec_x (box_min b) + vec_x (box_max b)) / Fin 2)
                         ((vec_y (box_min b) + vec_y (box_max b)) / Fin 2)
                         ((vec_z (box_min b) + vec_z (box_max b)) / Fin 2)"

text \<open>
  \<^verbatim>\<open>THREE.Object3D\<close> with the three transform properties the source writes. The loaded
  object carries its geometry (of a type the source never inspects); the pivot is a
  \<^verbatim>\<open>THREE.Group\<close>, an object with children.
\<close>

record object3d =
  position :: vector3
  rotation :: vector3
  scale :: vector3

record 'g mesh = object3d +
  geometry :: 'g

record 'g group = object3d +
  children :: "'g mesh list"

text \<open>An assignment that reads the field it writes, such as \<^verbatim>\<open>object.rotation.x = a\<close> or
  adding a child, is written with the record's update function: \<open>rotation_update g obj\<close> is
  \<open>obj\<close> with \<open>g\<close> applied to its \<open>rotation\<close>, and \<open>obj\<lparr>rotation := v\<rparr>\<close> is the update with
  a constant.\<close>

text \<open>Of the perspective camera the source reads the vertical field of view, in degrees,
  and the position.\<close>

record camera =
  fov :: jsnum
  cam_position :: vector3

section \<open>The renderer's state\<close>

datatype scene_node = Light string | PivotNode

text \<open>A console line: \<^verbatim>\<open>console.log\<close> of a text, of a text and a vector (the source prints
  the vector with two decimals; the model keeps the vector), and \<^verbatim>\<open>console.error\<close> of a
  text and the loader's error value.\<close>

datatype 'e log_entry = Log string | LogVec string vector3 | LogError string 'e


text \<open>
  The fields of the \<^verbatim>\<open>Renderer\<close> object that the loading pipeline and the animator touch.
  The scene holds the pivot by reference: \<open>PivotNode\<close> stands for the object stored in
  \<open>pivot\<close>. Three fields record effects on the outside world: the console, the URLs handed
  to the two loaders, and the number of \<^verbatim>\<open>requestAnimationFrame\<close> calls.
\<close>

record ('g, 'e) renderer =
  camera :: camera
  scene :: "scene_node list"
  model :: "'g mesh option"
  pivot :: "'g group option"
  rotationSpeed :: jsnum
  targetRotation :: jsnum
  isAnimating :: bool
  console :: "'e log_entry list"
  requests :: "string list"
  frameRequests :: nat

definition console_log :: "'e log_entry \<Rightarrow> ('g, 'e) renderer \<Rightarrow> ('g, 'e) renderer" where
  "console_log e st = console_update (\<lambda>lines. lines @ [e]) st"

definition setupCamera :: camera where
  "setupCamera = \<lparr>fov = Fin 18, cam_position = Vector3 (Fin 2) (Fin 0) (Fin 0)\<rparr>"

definition setupLights :: "scene_node list" where
  "setupLights = [Light ''ambientLight'', Light ''mainLight'', Light ''fillLight'']"

text \<open>The state the constructor has built when it calls \<^verbatim>\<open>loadModel\<close>; \<^verbatim>\<open>isAnimating\<close>
  is never initialised, so it is falsy.\<close>

definition initial :: "('g, 'e) renderer" where
  "initial = \<lparr>camera = setupCamera, scene = setupLights, model = None, pivot = None,
     rotationSpeed = Fin 0, targetRotation = Fin 0, isAnimating = False,
     console = [], requests = [], frameRequests = 0\<rparr>"

section \<open>The bounding volume utility\<close>

text \<open>
  Modelled from the spec: the Bounding Volume Utility \<open>computeBounds\<close>. The source calls
  \<^verbatim>\<open>new THREE.Box3().setFromObject(object)\<close> of the rendering library, which is not under
  \<^verbatim>\<open>src/\<close>; the functions of the source below therefore take the measurement as a
  parameter \<open>setFromObject\<close>. For concrete inputs the spec's utility is written out for a
  geometry given by its vertices: the world-space axis-aligned box of the vertices under
  the node's current scale, rotation (about X, then Y, then Z, intrinsic) and position;
  an empty geometry yields the degenerate box with \<open>min = max\<close> at the origin.
\<close>

definition applyEuler :: "vector3 \<Rightarrow> vector3 \<Rightarrow> vector3" where
  "applyEuler r v =
     (let a = Math_cos (vec_x r); b = Math_sin (vec_x r);
          c = Math_cos (vec_y r); d = Math_sin (vec_y r);
          e = Math_cos (vec_z r); f = Math_sin (vec_z r);
          ae = a * e; af = a * f; be = b * e; bf = b * f
      in Vector3 (c * e * vec_x v + - (c * f) * vec_y v + d * vec_z v)
                 ((af + be * d) * vec_x v + (ae - bf * d) * vec_y v + - (b * c) * vec_z v)
                 ((bf - ae * d) * vec_x v + (be + af * d) * vec_y v + a * c * vec_z v))"

definition localToWorld :: "'a object3d_scheme \<Rightarrow> vector3 \<Rightarrow> vector3" where
  "localToWorld obj v =
     (let w = applyEuler (rotation obj)
                (Vector3 (vec_x (scale obj) * vec_x v) (vec_y (scale obj) * vec_y v)
                         (vec_z (scale obj) * vec_z v))
      in Vector3 (vec_x (position obj) + vec_x w) (vec_y (position obj) + vec_y w)
                 (vec_z (position obj) + vec_z w))"

definition expandByPoint :: "vector3 \<Rightarrow> box3 \<Rightarrow> box3" where
  "expandByPoint p b =
     Box3 (Vector3 (Math_min2 (vec_x (box_min b)) (vec_x p)) (Math_min2 (vec_y (box_min b)) (vec_y p))
                   (Math_min2 (vec_z (box_min b)) (vec_z p)))
          (Vector3 (Math_max2 (vec_x (box_max b)) (vec_x p)) (Math_max2 (vec_y (box_max b)) (vec_y p))
                   (Math_max2 (vec_z (box_max b)) (vec_z p)))"

definition computeBounds :: "(vector3 list) mesh \<Rightarrow> box3" where
  "computeBounds node =
     (case map (localToWorld node) (geometry node) of
        [] \<Rightarrow> Box3 (Vector3 (Fin 0) (Fin 0) (Fin 0)) (Vector3 (Fin 0) (Fin 0) (Fin 0))
      | p # ps \<Rightarrow> fold expandByPoint ps (Box3 p p))"

section \<open>The idle rotation animator\<close>

text \<open>
  \<^verbatim>\<open>Renderer.updateRotation\<close> (lines 109-123). The two results of \<^verbatim>\<open>Math.random()\<close>, numbers
  in \<open>[0, 1)\<close>, are the parameters \<open>r1\<close> (the angle) and \<open>r2\<close> (the direction), in the order
  the source draws them; they are read only when a new target is chosen.
\<close>

definition updateRotation :: "real \<Rightarrow> real \<Rightarrow> ('g, 'e) renderer \<Rightarrow> ('g, 'e) renderer" where
  "updateRotation r1 r2 st =
     (case pivot st of
        None \<Rightarrow> st
      | Some p \<Rightarrow>
          let st1 = (if Math_abs (vec_z (rotation p) - targetRotation st) < Fin 0.001
                     then let newAngle = (Fin r1 * Fin 13 + Fin 3) * Math_PI / Fin 180
                          in st\<lparr>targetRotation :=
                                 vec_z (rotation p) + (if Fin r2 > Fin 0.5 then newAngle else - newAngle)\<rparr>
                     else st);
              speed = Fin 0.0015;
              z' = vec_z (rotation p) + (targetRotation st1 - vec_z (rotation p)) * speed
          in st1\<lparr>pivot := Some (rotation_update (set_z z') p)\<rparr>)"

text \<open>\<^verbatim>\<open>Renderer.animate\<close> (lines 230-234): ask for the next frame, tick, render. Rendering
  reads the scene and changes nothing of the state modelled here.\<close>

definition animate :: "real \<Rightarrow> real \<Rightarrow> ('g, 'e) renderer \<Rightarrow> ('g, 'e) renderer" where
  "animate r1 r2 st = updateRotation r1 r2 (frameRequests_update Suc st)"

text \<open>The frames that follow, one pair of random draws for each.\<close>

fun frames :: "(real \<times> real) list \<Rightarrow> ('g, 'e) renderer \<Rightarrow> ('g, 'e) renderer" where
  "frames [] st = st"
| "frames ((r1, r2) # rs) st = frames rs (animate r1 r2 st)"

section \<open>Loading and framing\<close>

text \<open>Lines 153-154: the world-space height visible at the origin plane.\<close>

definition viewportHeight :: "camera \<Rightarrow> jsnum" where
  "viewportHeight cam =
     (let vFOV = fov cam * Math_PI / Fin 180
      in Fin 2 * Math_tan (vFOV / Fin 2) * length3 (cam_position cam))"

text \<open>
  The success callback of \<^verbatim>\<open>objLoader.load\<close> (lines 141-205), statement by statement.
  \<open>factor\<close> is the source's local \<^verbatim>\<open>scale\<close>. The last measurement is taken after the object
  has become the pivot's child; only its size is read, which the pivot's translation does
  not change.
\<close>

definition objLoaded ::
  "('g mesh \<Rightarrow> box3) \<Rightarrow> real \<Rightarrow> real \<Rightarrow> 'g mesh \<Rightarrow> ('g, 'e) renderer \<Rightarrow> ('g, 'e) renderer" where
  "objLoaded setFromObject r1 r2 object st0 =
     (let st1 = console_log (Log ''OBJ loaded successfully'') st0;
          box = setFromObject object;
          size = getSize box;
          center = getCenter box;
          st2 = console_log (LogVec ''Original size:'' size) st1;
          st3 = console_log (LogVec ''Original center:'' center) st2;
          height = viewportHeight (camera st3);
          targetSize = height * Fin 3.2;
          maxDim = Math_max [vec_x size, vec_y size, vec_z size];
          factor = targetSize / maxDim;
          object1 = object\<lparr>scale := setScalar factor\<rparr>;
          object2 = object1\<lparr>position := Vector3 (Fin 0) (Fin 0) (Fin 0)\<rparr>;
          object3 = object2\<lparr>rotation := Vector3 (Fin 0) (Fin 0) (Fin 0)\<rparr>;
          object4 = rotation_update (set_x (- Math_PI / Fin 2)) object3;
          object5 = rotation_update (set_y (Math_PI / Fin 2)) object4;
          rotatedBox = setFromObject object5;
          rotatedCenter = getCenter rotatedBox;
          rotatedSize = getSize rotatedBox;
          viewportShift = height * Fin 0.4;
          newPivot = \<lparr>position = Vector3 (- vec_x rotatedCenter)
                                          (vec_y rotatedSize / Fin 2 - viewportShift)
                                          (- vec_z rotatedCenter),
                      rotation = Vector3 (Fin 0) (Fin 0) (Fin 0),
                      scale = Vector3 (Fin 1) (Fin 1) (Fin 1),
                      children = []\<rparr>;
          st4 = st3\<lparr>pivot := Some newPivot\<rparr>;
          st5 = scene_update (\<lambda>nodes. nodes @ [PivotNode]) st4;
          st6 = pivot_update (map_option (children_update (\<lambda>cs. cs @ [object5]))) st5;
          st7 = st6\<lparr>model := Some object5\<rparr>;
          finalBox = setFromObject object5;
          finalSize = getSize finalBox;
          st8 = console_log (LogVec ''Final size:'' finalSize) st7
      in if \<not> isAnimating st8 then animate r1 r2 (st8\<lparr>isAnimating := True\<rparr>) else st8)"

definition basePath :: string where
  "basePath = ''./static/sceneone/''"

text \<open>
  \<^verbatim>\<open>Renderer.loadModel\<close> (lines 125-221). The two loaders are collaborators: each is a
  function from what it is asked for to an error value or the decoded asset, and a call of
  \<^verbatim>\<open>load\<close> is recorded in \<open>requests\<close>. The progress callbacks only print and are left out.
  The callbacks run on the one thread of the page, after the constructor, so the load is a
  sequence.
\<close>

definition loadModel ::
  "('g mesh \<Rightarrow> box3) \<Rightarrow> (string \<Rightarrow> 'e + 'm) \<Rightarrow> ('m \<Rightarrow> string \<Rightarrow> 'e + 'g mesh) \<Rightarrow>
     real \<Rightarrow> real \<Rightarrow> ('g, 'e) renderer \<Rightarrow> ('g, 'e) renderer" where
  "loadModel setFromObject mtlLoader objLoader r1 r2 st0 =
     (let st1 = console_log (Log ''Starting model load...'') st0;
          st2 = requests_update (\<lambda>urls. urls @ [basePath @ ''obj.mtl'']) st1
      in case mtlLoader (basePath @ ''obj.mtl'') of
           Inl error \<Rightarrow> console_log (LogError ''Error loading MTL:'' error) st2
         | Inr materials \<Rightarrow>
             let st3 = console_log (Log ''MTL loaded successfully'') st2;
                 st4 = requests_update (\<lambda>urls. urls @ [basePath @ ''obj.obj'']) st3
             in case objLoader materials (basePath @ ''obj.obj'') of
                  Inl error \<Rightarrow> console_log (LogError ''Error loading OBJ:'' error) st4
                | Inr object \<Rightarrow> objLoaded setFromObject r1 r2 object st4)"

section \<open>The order of the framing steps, as the spec words it\<close>


text \<open>Both angles of the rotation state are finite numbers.\<close>

definition finiteRotation :: "('g, 'e) renderer \<Rightarrow> bool" where
  "finiteRotation st =
     (isFinite (targetRotation st) \<and>
      (case pivot st of None \<Rightarrow> True | Some p \<Rightarrow> isFinite (vec_z (rotation p))))"

section \<open>Concrete inputs\<close>

text \<open>Meshes given by their vertices. The first three are as the loader delivers them: at
  the origin, not rotated, at scale one; the last one is turned by 45 degrees about Z.\<close>

definition exampleBox :: "(vector3 list) mesh" where
  "exampleBox = \<lparr>position = Vector3 (Fin 0) (Fin 0) (Fin 0),
     rotation = Vector3 (Fin 0) (Fin 0) (Fin 0), scale = Vector3 (Fin 1) (Fin 1) (Fin 1),
     geometry = [Vector3 (Fin (- 1)) (Fin (- 1)) (Fin (- 1)), Vector3 (Fin 1) (Fin 1) (Fin 1)]\<rparr>"

definition exampleSlab :: "(vector3 list) mesh" where
  "exampleSlab = \<lparr>position = Vector3 (Fin 0) (Fin 0) (Fin 0),
     rotation = Vector3 (Fin 0) (Fin 0) (Fin 0), scale = Vector3 (Fin 1) (Fin 1) (Fin 1),
     geometry = [Vector3 (Fin 0) (Fin 0) (Fin 0), Vector3 (Fin 2) (Fin 2) (Fin 4)]\<rparr>"




definition camera5 :: camera where
  "camera5 = \<lparr>fov = Fin 90, cam_position = Vector3 (Fin 2.5) (Fin 0) (Fin 0)\<rparr>"

definition camera10 :: camera where
  "camera10 = \<lparr>fov = Fin 90, cam_position = Vector3 (Fin 5) (Fin 0) (Fin 0)\<rparr>"



definition withCamera :: "camera \<Rightarrow> (vector3 list, string) renderer" where
  "withCamera cam = initial\<lparr>camera := cam\<rparr>"

text \<open>Renderer states in which a pivot exists: at rest on its target, and 0.1 rad away
  from it.\<close>

definition examplePivot :: "'g group" where
  "examplePivot = \<lparr>position = Vector3 (Fin 0) (Fin 0) (Fin 0),
     rotation = Vector3 (Fin 0) (Fin 0) (Fin 0), scale = Vector3 (Fin 1) (Fin 1) (Fin 1),
     children = []\<rparr>"

definition convergedState :: "(vector3 list, string) renderer" where
  "convergedState = initial\<lparr>pivot := Some examplePivot\<rparr>"


section \<open>Auxiliary facts\<close>

subsection \<open>Evaluating the concrete inputs\<close>

lemma length3_on_axis: "length3 (Vector3 (Fin a) (Fin 0) (Fin 0)) = Fin \<bar>a\<bar>"
  by (simp add: length3_def)

lemma viewportHeight_camera5: "viewportHeight camera5 = Fin 5"
  by (simp add: viewportHeight_def camera5_def length3_on_axis Math_PI_def tan_45)

lemma viewportHeight_camera10: "viewportHeight camera10 = Fin 10"
  by (simp add: viewportHeight_def camera10_def length3_on_axis Math_PI_def tan_45)

lemmas bounds_defs = computeBounds_def localToWorld_def applyEuler_def expandByPoint_def
  minus_jsnum_def Let_def

lemma computeBounds_exampleBox:
  "computeBounds exampleBox =
     Box3 (Vector3 (Fin (- 1)) (Fin (- 1)) (Fin (- 1))) (Vector3 (Fin 1) (Fin 1) (Fin 1))"
  by (simp add: bounds_defs exampleBox_def)

lemma computeBounds_exampleSlab:
  "computeBounds exampleSlab =
     Box3 (Vector3 (Fin 0) (Fin 0) (Fin 0)) (Vector3 (Fin 2) (Fin 2) (Fin 4))"
  by (simp add: bounds_defs exampleSlab_def)

text \<open>The fixed reorientation sends \<open>(x, y, z)\<close> to \<open>(z, - x, - y)\<close>: the slab, scaled by 8,
  then occupies \<open>[0, 32] \<times> [- 16, 0] \<times> [- 16, 0]\<close>.\<close>

lemma framed_exampleSlab:
  "computeBounds (exampleSlab\<lparr>position := Vector3 (Fin 0) (Fin 0) (Fin 0),
                  rotation := Vector3 (- Math_PI / Fin 2) (Math_PI / Fin 2) (Fin 0),
                  scale := setScalar (Fin 8)\<rparr>) =
   Box3 (Vector3 (Fin 0) (Fin (- 16)) (Fin (- 16))) (Vector3 (Fin 32) (Fin 0) (Fin 0))"
  by (simp add: bounds_defs exampleSlab_def setScalar_def Math_PI_def)








subsection \<open>What the success callback leaves in the state\<close>

lemmas objLoaded_defs = objLoaded_def Let_def animate_def updateRotation_def console_log_def
  set_x_def set_y_def set_z_def comp_def

text \<open>In \<open>model\<close>: the loaded object at the origin, in the fixed orientation, scaled by the
  factor computed from the first measurement.\<close>

lemma objLoaded_model:
  "model (objLoaded sfo r1 r2 object st) =
     Some (object\<lparr>scale := setScalar (viewportHeight (camera st) * Fin 3.2 /
                     Math_max [vec_x (getSize (sfo object)), vec_y (getSize (sfo object)),
                               vec_z (getSize (sfo object))]),
                  position := Vector3 (Fin 0) (Fin 0) (Fin 0),
                  rotation := Vector3 (- Math_PI / Fin 2) (Math_PI / Fin 2) (Fin 0)\<rparr>)"
  by (simp add: objLoaded_defs)

lemma objLoaded_pivot_position:
  "map_option position (pivot (objLoaded sfo r1 r2 object st)) =
     Some (Vector3 (- vec_x (getCenter (sfo (the (model (objLoaded sfo r1 r2 object st))))))
                   (vec_y (getSize (sfo (the (model (objLoaded sfo r1 r2 object st))))) / Fin 2
                      - viewportHeight (camera st) * Fin 0.4)
                   (- vec_z (getCenter (sfo (the (model (objLoaded sfo r1 r2 object st)))))))"
  unfolding objLoaded_model option.sel by (simp add: objLoaded_defs)







lemma model_exampleSlab:
  "model (objLoaded computeBounds 0 0 exampleSlab (withCamera camera10)) =
     Some (exampleSlab\<lparr>scale := setScalar (Fin 8),
                  position := Vector3 (Fin 0) (Fin 0) (Fin 0),
                  rotation := Vector3 (- Math_PI / Fin 2) (Math_PI / Fin 2) (Fin 0)\<rparr>)"
  by (simp add: objLoaded_model computeBounds_exampleSlab getSize_def minus_jsnum_def
      withCamera_def viewportHeight_camera10 Math_max_def)

subsection \<open>The arithmetic of one tick\<close>

text \<open>The convergence test holds exactly for two finite angles less than the tolerance
  apart.\<close>

lemma abs_lt_cases:
  "Math_abs (a - b) < Fin e \<longleftrightarrow> (\<exists>c t. a = Fin c \<and> b = Fin t \<and> \<bar>c - t\<bar> < e)"
  by (cases a; cases b) (simp_all add: minus_jsnum_def)

lemma new_angle_bounds:
  assumes "0 \<le> r1" "r1 < 1"
  shows "3 * pi / 180 \<le> (r1 * 13 + 3) * pi / 180" "(r1 * 13 + 3) * pi / 180 \<le> 16 * pi / 180"
  using assms pi_gt_zero by (simp_all add: divide_le_cancel)

lemma three_degrees: "1 / 1000 < 3 * pi / 180"
  using pi_ge_two by simp

text \<open>Finite angles stay finite: a tick, any number of frames and the load itself keep
  \<open>finiteRotation\<close>, which holds of the constructor's state. The rotation states the
  animator meets are therefore pairs of finite numbers.\<close>

lemma finiteRotation_initial: "finiteRotation initial"
  by (simp add: finiteRotation_def initial_def)

lemma updateRotation_finite:
  assumes "finiteRotation st"
  shows "finiteRotation (updateRotation r1 r2 st)"
proof (cases "pivot st")
  case None
  then show ?thesis using assms by (simp add: updateRotation_def)
next
  case (Some p)
  with assms obtain c t where "vec_z (rotation p) = Fin c" "targetRotation st = Fin t"
    by (cases "vec_z (rotation p)"; cases "targetRotation st") (simp_all add: finiteRotation_def)
  with Some show ?thesis
    by (simp add: finiteRotation_def updateRotation_def Let_def minus_jsnum_def Math_PI_def
        set_z_def)
qed

lemma frames_finite: "finiteRotation st \<Longrightarrow> finiteRotation (frames rs st)"
proof (induction rs arbitrary: st)
  case Nil
  then show ?case by simp
next
  case (Cons r rs)
  obtain r1 r2 where r: "r = (r1, r2)" by (cases r)
  have "finiteRotation (animate r1 r2 st)"
    unfolding animate_def using Cons.prems
    by (intro updateRotation_finite) (simp add: finiteRotation_def)
  then show ?case using Cons.IH by (simp add: r)
qed

lemma loadModel_finite:
  "finiteRotation (loadModel sfo mtlLoader objLoader r1 r2 initial)"
proof -
  have "finiteRotation (objLoaded sfo r1 r2 object st)" if "targetRotation st = Fin 0" for object
    and st :: "('a, 'b) renderer"
    using that
    by (simp add: finiteRotation_def objLoaded_defs minus_jsnum_def Math_PI_def)
  then show ?thesis
    by (simp add: loadModel_def Let_def console_log_def finiteRotation_def initial_def
        split: sum.split)
qed

section \<open>Auto-framing\<close>

text \<open>
  C1. For every mesh whose measured bounding-box size is \<open>(sx, sy, sz)\<close> with
  \<open>max sx sy sz > 0\<close> and every viewport height \<open>H\<close>, the scale factor set on the mesh is
  \<open>(H * 3.2) / max sx sy sz\<close>, the same on all three axes. The witness is the spec's
  scenario: size \<open>(2, 2, 2)\<close> and \<open>H = 5\<close> give the scale 8.
\<close>

theorem scale_factor_formula:
  assumes "getSize (setFromObject object) = Vector3 (Fin sx) (Fin sy) (Fin sz)"
    and "0 < max sx (max sy sz)"
    and "viewportHeight (camera st) = Fin H"
  shows "map_option scale (model (objLoaded setFromObject r1 r2 object st)) =
           Some (Vector3 (Fin (H * 3.2 / max sx (max sy sz)))
                         (Fin (H * 3.2 / max sx (max sy sz)))
                         (Fin (H * 3.2 / max sx (max sy sz))))"
  using assms by (simp add: objLoaded_model setScalar_def Math_max_def)

theorem scale_factor_formula_witness:
  "getSize (computeBounds exampleBox) = Vector3 (Fin 2) (Fin 2) (Fin 2) \<and>
   viewportHeight (camera (withCamera camera5)) = Fin 5 \<and>
   map_option scale (model (objLoaded computeBounds 0 0 exampleBox (withCamera camera5))) =
     Some (Vector3 (Fin 8) (Fin 8) (Fin 8))"
proof -
  have size: "getSize (computeBounds exampleBox) = Vector3 (Fin 2) (Fin 2) (Fin 2)"
    by (simp add: computeBounds_exampleBox getSize_def minus_jsnum_def)
  have height: "viewportHeight (camera (withCamera camera5)) = Fin 5"
    by (simp add: withCamera_def viewportHeight_camera5)
  have "(0::real) < max 2 (max 2 2)" by simp
  from scale_factor_formula [where setFromObject = computeBounds and object = exampleBox
      and ?r1.0 = 0 and ?r2.0 = 0, OF size this height] size height
  show ?thesis by simp
qed

text \<open>
  C2. For every mesh whose bounding box, measured after scale and rotation, has center
  \<open>(cx, cy, cz)\<close> and size \<open>(sx, sy, sz)\<close>, and every viewport height \<open>H\<close>, the pivot is
  created at \<open>(- cx, sy / 2 - H * 0.4, - cz)\<close>; with \<open>H = 10\<close> that is
  \<open>(- cx, sy / 2 - 4, - cz)\<close>. The scaled and rotated mesh is the one stored in \<open>model\<close>.
\<close>

theorem pivot_offset_formula:
  assumes "model (objLoaded setFromObject r1 r2 object st) = Some framed"
    and "getCenter (setFromObject framed) = Vector3 cx cy cz"
    and "getSize (setFromObject framed) = Vector3 sx sy sz"
    and "viewportHeight (camera st) = H"
  shows "map_option position (pivot (objLoaded setFromObject r1 r2 object st)) =
           Some (Vector3 (- cx) (sy / Fin 2 - H * Fin 0.4) (- cz)) \<and>
         (H = Fin 10 \<longrightarrow>
            map_option position (pivot (objLoaded setFromObject r1 r2 object st)) =
              Some (Vector3 (- cx) (sy / Fin 2 - Fin 4) (- cz)))"
  using assms by (auto simp add: objLoaded_pivot_position)

theorem pivot_offset_formula_witness:
  "getCenter (computeBounds (the (model (objLoaded computeBounds 0 0 exampleSlab
      (withCamera camera10))))) = Vector3 (Fin 16) (Fin (- 8)) (Fin (- 8)) \<and>
   map_option position (pivot (objLoaded computeBounds 0 0 exampleSlab (withCamera camera10))) =
     Some (Vector3 (Fin (- 16)) (Fin 4) (Fin 8))"
proof -
  let ?framed = "exampleSlab\<lparr>scale := setScalar (Fin 8),
                  position := Vector3 (Fin 0) (Fin 0) (Fin 0),
                  rotation := Vector3 (- Math_PI / Fin 2) (Math_PI / Fin 2) (Fin 0)\<rparr>"
  have same: "?framed = exampleSlab\<lparr>position := Vector3 (Fin 0) (Fin 0) (Fin 0),
                  rotation := Vector3 (- Math_PI / Fin 2) (Math_PI / Fin 2) (Fin 0),
                  scale := setScalar (Fin 8)\<rparr>"
    by simp
  have center: "getCenter (computeBounds ?framed) = Vector3 (Fin 16) (Fin (- 8)) (Fin (- 8))"
    unfolding same by (simp add: framed_exampleSlab getCenter_def)
  have size: "getSize (computeBounds ?framed) = Vector3 (Fin 32) (Fin 16) (Fin 16)"
    unfolding same by (simp add: framed_exampleSlab getSize_def minus_jsnum_def)
  have height: "viewportHeight (camera (withCamera camera10)) = Fin 10"
    by (simp add: withCamera_def viewportHeight_camera10)
  from pivot_offset_formula [OF model_exampleSlab center size height]
  have "map_option position (pivot (objLoaded computeBounds 0 0 exampleSlab (withCamera camera10))) =
     Some (Vector3 (Fin (- 16)) (Fin 4) (Fin 8))"
    by (simp add: minus_jsnum_def)
  with center show ?thesis
    by (simp only: model_exampleSlab option.sel)
qed







section \<open>The viewport height\<close>






section \<open>The animator\<close>

text \<open>
  C4. With a pivot in place and the first random draw in \<open>[0, 1)\<close>, one tick replaces the
  target if and only if \<open>|current - target| < 0.001\<close>; when it does, the new target is
  \<open>current + s * d\<close> with \<open>s\<close> one of \<open>1\<close>, \<open>- 1\<close> and \<open>d\<close> between 3 and 16 degrees, in radians.
  This holds of every rotation state, a non-finite one never passing the test.
\<close>

theorem tick_new_target:
  assumes "pivot st = Some p" and "0 \<le> r1" and "r1 < 1"
  shows "(targetRotation (updateRotation r1 r2 st) \<noteq> targetRotation st
            \<longleftrightarrow> Math_abs (vec_z (rotation p) - targetRotation st) < Fin 0.001) \<and>
         (Math_abs (vec_z (rotation p) - targetRotation st) < Fin 0.001 \<longrightarrow>
            (\<exists>c d s. vec_z (rotation p) = Fin c \<and> (s = 1 \<or> s = - 1) \<and>
               3 * pi / 180 \<le> d \<and> d \<le> 16 * pi / 180 \<and>
               targetRotation (updateRotation r1 r2 st) = Fin (c + s * d)))"
proof (cases "Math_abs (vec_z (rotation p) - targetRotation st) < Fin 0.001")
  case False
  then show ?thesis using assms(1) by (simp add: updateRotation_def Let_def)
next
  case True
  then obtain c t where ct: "vec_z (rotation p) = Fin c" "targetRotation st = Fin t"
      "\<bar>c - t\<bar> < 0.001"
    unfolding abs_lt_cases by auto
  define d where "d = (r1 * 13 + 3) * pi / 180"
  define s :: real where "s = (if 0.5 < r2 then 1 else - 1)"
  have d: "3 * pi / 180 \<le> d" "d \<le> 16 * pi / 180"
    unfolding d_def using new_angle_bounds [OF assms(2,3)] by simp_all
  have new: "targetRotation (updateRotation r1 r2 st) = Fin (c + s * d)"
    using assms(1) True ct by (simp add: updateRotation_def Let_def Math_PI_def d_def s_def)
  have "c + s * d \<noteq> t"
    using d(1) ct(3) three_degrees by (auto simp add: s_def split: if_splits)
  moreover have "s = 1 \<or> s = - 1" by (simp add: s_def)
  ultimately have "targetRotation (updateRotation r1 r2 st) \<noteq> targetRotation st"
    and "\<exists>c d s. vec_z (rotation p) = Fin c \<and> (s = 1 \<or> s = - 1) \<and>
               3 * pi / 180 \<le> d \<and> d \<le> 16 * pi / 180 \<and>
               targetRotation (updateRotation r1 r2 st) = Fin (c + s * d)"
    using new ct d by auto
  with True show ?thesis by blast
qed

theorem tick_new_target_witness:
  "Math_abs (vec_z (rotation (examplePivot :: (vector3 list) group)) - targetRotation convergedState)
     < Fin 0.001 \<and>
   targetRotation (updateRotation 0.5 0.75 convergedState) \<noteq> targetRotation convergedState \<and>
   targetRotation (updateRotation 0.5 0.75 convergedState) = Fin (9.5 * pi / 180)"
proof -
  have p: "pivot convergedState = Some examplePivot"
    by (simp add: convergedState_def)
  have test: "Math_abs (vec_z (rotation (examplePivot :: (vector3 list) group))
      - targetRotation convergedState) < Fin 0.001"
    by (simp add: convergedState_def examplePivot_def initial_def minus_jsnum_def)
  have "(0::real) \<le> 0.5" "(0.5::real) < 1" by simp_all
  from tick_new_target [OF p this, of "0.75"] test
  have "targetRotation (updateRotation 0.5 0.75 convergedState) \<noteq> targetRotation convergedState"
    by blast
  moreover have "targetRotation (updateRotation 0.5 0.75 convergedState) = Fin (9.5 * pi / 180)"
    by (simp add: updateRotation_def convergedState_def examplePivot_def initial_def
        minus_jsnum_def Math_PI_def Let_def)
  ultimately show ?thesis using test by blast
qed



text \<open>
  C10. While the pivot is null, a tick returns the state it was given: nothing of the
  viewer state changes, whatever the random draws.
\<close>

theorem tick_without_pivot:
  assumes "pivot st = None"
  shows "updateRotation r1 r2 st = st"
  using assms by (simp add: updateRotation_def)

theorem tick_without_pivot_witness:
  "pivot (initial :: (vector3 list, string) renderer) = None \<and>
   updateRotation 0.25 0.75 (initial :: (vector3 list, string) renderer) = initial"
proof -
  have "pivot (initial :: (vector3 list, string) renderer) = None"
    by (simp add: initial_def)
  from this tick_without_pivot [OF this, of "0.25" "0.75"] show ?thesis by blast
qed

section \<open>Load failures\<close>

text \<open>
  C9. When the material load fails, the only URL handed to a loader is the material's (the
  mesh load is not attempted), the failure is written to the console as an error, and
  nothing else of the state changes: the animator is not started, no frame is requested,
  no pivot and no model appear. When the mesh load fails after the material has loaded,
  the same holds, both URLs having been requested.
\<close>

theorem load_failure:
  "(mtlLoader (basePath @ ''obj.mtl'') = Inl err \<longrightarrow>
      loadModel setFromObject mtlLoader objLoader r1 r2 st =
        st\<lparr>console := console st @
               [Log ''Starting model load...'', LogError ''Error loading MTL:'' err],
           requests := requests st @ [basePath @ ''obj.mtl'']\<rparr>) \<and>
   (mtlLoader (basePath @ ''obj.mtl'') = Inr materials \<and>
    objLoader materials (basePath @ ''obj.obj'') = Inl err \<longrightarrow>
      loadModel setFromObject mtlLoader objLoader r1 r2 st =
        st\<lparr>console := console st @
               [Log ''Starting model load...'', Log ''MTL loaded successfully'',
                LogError ''Error loading OBJ:'' err],
           requests := requests st @ [basePath @ ''obj.mtl'', basePath @ ''obj.obj'']\<rparr>)"
  by (cases st) (simp add: loadModel_def Let_def console_log_def)

theorem load_failure_witness:
  "loadModel computeBounds (\<lambda>url. Inl ''404'') (\<lambda>materials :: unit. \<lambda>url. Inr exampleBox) 0 0
       initial =
     initial\<lparr>console := [Log ''Starting model load...'', LogError ''Error loading MTL:'' ''404''],
             requests := [''./static/sceneone/obj.mtl'']\<rparr> \<and>
   loadModel computeBounds (\<lambda>url. Inr ()) (\<lambda>materials url. Inl ''404'') 0 0 initial =
     initial\<lparr>console := [Log ''Starting model load...'', Log ''MTL loaded successfully'',
                         LogError ''Error loading OBJ:'' ''404''],
             requests := [''./static/sceneone/obj.mtl'', ''./static/sceneone/obj.obj'']\<rparr> \<and>
   pivot (loadModel computeBounds (\<lambda>url. Inr ()) (\<lambda>materials url. Inl ''404'') 0 0 initial) = None \<and>
   isAnimating (loadModel computeBounds (\<lambda>url. Inr ()) (\<lambda>materials url. Inl ''404'') 0 0 initial)
     = False \<and>
   frameRequests (loadModel computeBounds (\<lambda>url. Inr ()) (\<lambda>materials url. Inl ''404'') 0 0 initial)
     = 0"
  using load_failure [of "\<lambda>url. Inl ''404''" "''404''" computeBounds
      "\<lambda>materials :: unit. \<lambda>url. Inr exampleBox" 0 0 initial "()"]
    load_failure [of "\<lambda>url. Inr ()" "''404''" computeBounds "\<lambda>materials url. Inl ''404''" 0 0
      initial "()"]
  by (simp add: initial_def basePath_def)

end
